theory Spec2Isabelle
  imports Complex_Main "HOL-Library.Multiset"
begin

section \<open>JavaScript numbers\<close>

text \<open>
  A JavaScript number is modelled as an exact real or one of the three special values of
  IEEE 754 arithmetic. Rounding, overflow to an infinity and the sign of zero are not
  modelled: a zero divisor is taken to be \<open>+0\<close>.
\<close>

datatype jsnum = Num real | PInf | NInf | NaN

fun js_add :: "jsnum \<Rightarrow> jsnum \<Rightarrow> jsnum" where
  "js_add (Num a) (Num b) = Num (a + b)"
| "js_add NaN _ = NaN"
| "js_add _ NaN = NaN"
| "js_add PInf NInf = NaN"
| "js_add NInf PInf = NaN"
| "js_add PInf _ = PInf"
| "js_add _ PInf = PInf"
| "js_add NInf _ = NInf"
| "js_add _ NInf = NInf"

fun js_mul :: "jsnum \<Rightarrow> jsnum \<Rightarrow> jsnum" where
  "js_mul (Num a) (Num b) = Num (a * b)"
| "js_mul NaN _ = NaN"
| "js_mul _ NaN = NaN"
| "js_mul PInf (Num b) = (if b = 0 then NaN else if 0 < b then PInf else NInf)"
| "js_mul NInf (Num b) = (if b = 0 then NaN else if 0 < b then NInf else PInf)"
| "js_mul (Num a) PInf = (if a = 0 then NaN else if 0 < a then PInf else NInf)"
| "js_mul (Num a) NInf = (if a = 0 then NaN else if 0 < a then NInf else PInf)"
| "js_mul PInf PInf = PInf"
| "js_mul NInf NInf = PInf"
| "js_mul PInf NInf = NInf"
| "js_mul NInf PInf = NInf"

fun js_div :: "jsnum \<Rightarrow> jsnum \<Rightarrow> jsnum" where
  "js_div (Num a) (Num b) =
     (if b \<noteq> 0 then Num (a / b)
      else if a = 0 then NaN else if 0 < a then PInf else NInf)"
| "js_div NaN _ = NaN"
| "js_div _ NaN = NaN"
| "js_div (Num a) PInf = Num 0"
| "js_div (Num a) NInf = Num 0"
| "js_div PInf (Num b) = (if 0 \<le> b then PInf else NInf)"
| "js_div NInf (Num b) = (if 0 \<le> b then NInf else PInf)"
| "js_div _ _ = NaN"

text \<open>\<^verbatim>\<open>x < y\<close>: false as soon as one side is \<^verbatim>\<open>NaN\<close>.\<close>

fun js_less :: "jsnum \<Rightarrow> jsnum \<Rightarrow> bool" where
  "js_less (Num a) (Num b) = (a < b)"
| "js_less NaN _ = False"
| "js_less _ NaN = False"
| "js_less _ NInf = False"
| "js_less PInf _ = False"
| "js_less NInf _ = True"
| "js_less _ PInf = True"

text \<open>\<^verbatim>\<open>Math.log\<close> and \<^verbatim>\<open>Math.abs\<close>.\<close>

fun Math_log :: "jsnum \<Rightarrow> jsnum" where
  "Math_log (Num x) = (if 0 < x then Num (ln x) else if x = 0 then NInf else NaN)"
| "Math_log PInf = PInf"
| "Math_log NInf = NaN"
| "Math_log NaN = NaN"

fun Math_abs :: "jsnum \<Rightarrow> jsnum" where
  "Math_abs (Num x) = Num \<bar>x\<bar>"
| "Math_abs PInf = PInf"
| "Math_abs NInf = PInf"
| "Math_abs NaN = NaN"

section \<open>JavaScript strings\<close>

text \<open>
  Strings are lists of characters; the case conversions and the white space class
  \<^verbatim>\<open>\s\<close> are those of ASCII.
\<close>

definition toUpperChar :: "char \<Rightarrow> char" where
  "toUpperChar c =
     (let n = of_char c :: nat in if 97 \<le> n \<and> n \<le> 122 then char_of (n - 32) else c)"

definition toLowerChar :: "char \<Rightarrow> char" where
  "toLowerChar c =
     (let n = of_char c :: nat in if 65 \<le> n \<and> n \<le> 90 then char_of (n + 32) else c)"

definition toUpperCase :: "string \<Rightarrow> string" where
  "toUpperCase w = map toUpperChar w"

definition toLowerCase :: "string \<Rightarrow> string" where
  "toLowerCase w = map toLowerChar w"

definition is_space :: "char \<Rightarrow> bool" where
  "is_space c = (c \<in> set [CHR 0x20, CHR 0x09, CHR 0x0A, CHR 0x0B, CHR 0x0C, CHR 0x0D])"

text \<open>
  \<^verbatim>\<open>s.split(/\s+/)\<close>: the pieces between the maximal runs of white space. A run at the
  start or at the end of \<open>s\<close> leaves an empty piece there, and the empty string splits into
  one empty piece.
\<close>

function split_spaces :: "string \<Rightarrow> string list" where
  "split_spaces s =
     (case dropWhile (\<lambda>c. \<not> is_space c) s of
        [] \<Rightarrow> [s]
      | _ # rest \<Rightarrow> takeWhile (\<lambda>c. \<not> is_space c) s # split_spaces (dropWhile is_space rest))"
  by pat_completeness auto
termination
proof (relation "measure length")
  show "wf (measure length)" by simp
next
  fix s :: string and c rest
  assume a: "dropWhile (\<lambda>c. \<not> is_space c) s = c # rest"
  have "length (dropWhile is_space rest) \<le> length rest"
    by (rule length_dropWhile_le)
  moreover have "length (c # rest) \<le> length s"
    using length_dropWhile_le[of "\<lambda>c. \<not> is_space c" s] a by simp
  ultimately show "(dropWhile is_space rest, s) \<in> measure length" by simp
qed

declare split_spaces.simps [simp del]

text \<open>\<^verbatim>\<open>w.replace(/[\.\:,;]+$/g, '')\<close>: the trailing run of the four characters is removed.\<close>

definition is_punct :: "char \<Rightarrow> bool" where
  "is_punct c = (c \<in> set [CHR ''.'', CHR '':'', CHR '','', CHR '';''])"

definition strip_punct :: "string \<Rightarrow> string" where
  "strip_punct w = rev (dropWhile is_punct (rev w))"

section \<open>JavaScript objects used as hashes\<close>

text \<open>
  The widget keeps its tables (\<^verbatim>\<open>h\<close>, \<^verbatim>\<open>clelScores\<close>, \<^verbatim>\<open>stopwords\<close>, \<^verbatim>\<open>domainColor\<close>) in
  plain objects created by \<^verbatim>\<open>{}\<close>. Such an object is modelled by the list of its own
  properties in the order of their creation. Reading a key that is not an own property
  falls through to \<^verbatim>\<open>Object.prototype\<close>, whose properties are functions, or, for
  \<^verbatim>\<open>__proto__\<close>, the prototype object itself.
\<close>

type_synonym 'v jsobj = "(string \<times> 'v) list"

definition Object_prototype :: "string list" where
  "Object_prototype =
     [''constructor'', ''hasOwnProperty'', ''isPrototypeOf'', ''propertyIsEnumerable'',
      ''toLocaleString'', ''toString'', ''valueOf'', ''__defineGetter__'',
      ''__defineSetter__'', ''__lookupGetter__'', ''__lookupSetter__'', ''__proto__'']"

datatype 'v jsval = Own 'v | Inherited | Undefined

definition obj_get :: "'v jsobj \<Rightarrow> string \<Rightarrow> 'v jsval" where
  "obj_get obj k =
     (case map_of obj k of
        Some v \<Rightarrow> Own v
      | None \<Rightarrow> if k \<in> set Object_prototype then Inherited else Undefined)"

text \<open>
  \<^verbatim>\<open>obj[k] = v\<close> replaces the value of an own property where it stands and creates a new
  own property otherwise. Assigning a number to \<^verbatim>\<open>__proto__\<close> does nothing; the widget
  never assigns anything else to that key.
\<close>

definition obj_set :: "'v jsobj \<Rightarrow> string \<Rightarrow> 'v \<Rightarrow> 'v jsobj" where
  "obj_set obj k v =
     (if k = ''__proto__'' then obj
      else if k \<in> fst ` set obj then map (\<lambda>(k', v'). if k' = k then (k', v) else (k', v')) obj
      else obj @ [(k, v)])"

text \<open>
  Own properties are enumerated (\<^verbatim>\<open>for ... in\<close>, \<^verbatim>\<open>Object.keys\<close>, hence \<^verbatim>\<open>_.values\<close> of
  underscore) with the array indices first, in ascending numeric order, and then the
  other keys in the order of their creation. An array index is the canonical decimal
  numeral of an integer below \<open>2\<^sup>3\<^sup>2 - 1\<close>.
\<close>

definition is_digit :: "char \<Rightarrow> bool" where
  "is_digit c = (48 \<le> (of_char c :: nat) \<and> (of_char c :: nat) \<le> 57)"

definition index_val :: "string \<Rightarrow> nat" where
  "index_val s = foldl (\<lambda>n c. 10 * n + (of_char c - 48)) 0 s"

definition is_index :: "string \<Rightarrow> bool" where
  "is_index s =
     (s \<noteq> [] \<and> list_all is_digit s \<and> (s = ''0'' \<or> hd s \<noteq> CHR ''0'') \<and>
      index_val s < 2 ^ 32 - 1)"

definition own_entries :: "'v jsobj \<Rightarrow> (string \<times> 'v) list" where
  "own_entries obj =
     sort_key (\<lambda>e. index_val (fst e)) (filter (\<lambda>e. is_index (fst e)) obj) @
     filter (\<lambda>e. \<not> is_index (fst e)) obj"

definition own_keys :: "'v jsobj \<Rightarrow> string list" where
  "own_keys obj = map fst (own_entries obj)"

definition values_underscore :: "'v jsobj \<Rightarrow> 'v list" where
  "values_underscore obj = map snd (own_entries obj)"

text \<open>Thrown errors, as values.\<close>

datatype js_error = ContainerError | UnknownCallbackError string | TypeError

section \<open>Data\<close>

text \<open>
  One record of the annotation service's answer, with the four fields the widget reads.
\<close>

record annotation =
  term_id :: string
  term_name :: string
  p_value :: jsnum
  domain :: string

text \<open>
  A cloud element is the pair \<^verbatim>\<open>[str, [t1, ..., tn]]\<close>; before the collapse it is the pair
  \<^verbatim>\<open>[str, t]\<close>.
\<close>

type_synonym clel = "string \<times> annotation list"

text \<open>
  The argument object of the scorer callback, and its extension by \<^verbatim>\<open>score\<close> and
  \<^verbatim>\<open>scaling\<close> that the sizer and colorer callbacks receive.
\<close>

record scattrs =
  str :: string
  termdata :: "annotation list"

record cbattrs = scattrs +
  score :: jsnum
  scaling :: jsnum

text \<open>The objects handed to the layout: \<^verbatim>\<open>{text, size, color, termdata}\<close>.\<close>

record cloudword =
  word_text :: string
  word_size :: jsnum
  word_color :: "string jsval"
  word_termdata :: "annotation list"

text \<open>
  The widget object \<^verbatim>\<open>this\<close>, with the attributes and modules that the functions below
  read. \<open>container\<close> is the jQuery set that the selector resolved to, \<open>stopwords\<close> the hash
  that the constructor builds, \<open>gp\<close> the annotation service (the records its callback
  receives, if it ever answers), \<open>fill10\<close> and \<open>fill20\<close> the colour scales of d3. A
  callback attribute that is not set is \<open>None\<close>. A colorer is called with the number of
  colours handed out so far and returns the new number, for the counter of
  \<^verbatim>\<open>colorerWord\<close>.
\<close>

record 'q gpvis =
  container :: "string list"
  width :: jsnum
  height :: jsnum
  maxN :: int
  maxTermLen :: int
  warnings :: bool
  useTerms :: bool
  sizer :: "(cbattrs \<Rightarrow> jsnum) option"
  colorer :: "(cbattrs \<Rightarrow> string jsval) option"
  scorer :: "(scattrs \<Rightarrow> jsnum) option"
  distiller :: "(annotation \<Rightarrow> string list option) option"
  stopwords :: "jsnum jsobj"
  gp :: "'q \<Rightarrow> annotation list option"
  fill10 :: "nat \<Rightarrow> string"
  fill20 :: "nat \<Rightarrow> string"

text \<open>
  The constructor's loop \<^verbatim>\<open>$.each(this.stopwords, function(i, v) { swh[v] = 1; })\<close> over the
  array of English stop words.
\<close>

definition stopword_hash :: "string list \<Rightarrow> jsnum jsobj" where
  "stopword_hash english = foldl (\<lambda>swh v. obj_set swh v (Num 1)) [] english"

text \<open>
  Truth value of a table entry read by \<^verbatim>\<open>obj[k]\<close> in a condition; a number is false when
  it is zero or \<^verbatim>\<open>NaN\<close>.
\<close>

definition truthy_num :: "jsnum \<Rightarrow> bool" where
  "truthy_num v = (v \<noteq> Num 0 \<and> v \<noteq> NaN)"

fun truthy :: "('v \<Rightarrow> bool) \<Rightarrow> 'v jsval \<Rightarrow> bool" where
  "truthy tv (Own v) = tv v"
| "truthy tv Inherited = True"
| "truthy tv Undefined = False"

section \<open>Auxiliary routines\<close>

definition logBase :: "jsnum \<Rightarrow> jsnum \<Rightarrow> jsnum" where
  "logBase b x = js_div (Math_log x) (Math_log b)"

definition capValue :: "jsnum \<Rightarrow> jsnum \<Rightarrow> jsnum \<Rightarrow> jsnum" where
  "capValue x minx maxx =
     (if js_less x minx then minx else if js_less maxx x then maxx else x)"

text \<open>
  \<^verbatim>\<open>_getCallback\<close> looks the name with the mode's suffix up in the table of default
  callbacks and throws when there is none. The four \<^verbatim>\<open>_default...Callbacks\<close> functions fill
  one table; here each kind of callback has its table, and a caller passes the table of
  the kind it asks for.
\<close>

definition getCallback :: "(string \<times> 'f) list \<Rightarrow> 'q gpvis \<Rightarrow> string \<Rightarrow> js_error + 'f" where
  "getCallback defcb this name =
     (let suffix = (if useTerms this then ''Term'' else ''Word'');
          cbname = name @ suffix
      in case map_of defcb cbname of
           None \<Rightarrow> Inl (UnknownCallbackError cbname)
         | Some r \<Rightarrow> Inr r)"

subsection \<open>Default sizers\<close>

definition cap :: "jsnum \<Rightarrow> jsnum \<Rightarrow> jsnum" where
  "cap s scaling' =
     (let minS = Num 12; maxS = js_mul (Num 72) scaling' in capValue s minS maxS)"

definition sizerWord :: "cbattrs \<Rightarrow> jsnum" where
  "sizerWord attrs =
     (let score' = score attrs;
          scaling' = scaling attrs;
          s = js_mul (js_mul (logBase (Num 2) (js_add (js_mul score' (Num 600)) (Num 1)))
                (Num 12)) scaling'
      in cap s scaling')"

definition sizerTerm :: "cbattrs \<Rightarrow> jsnum" where
  "sizerTerm attrs =
     (let score' = score attrs;
          scaling' = scaling attrs;
          s = js_mul (js_mul score' (Num 800)) scaling'
      in cap s scaling')"

definition defaultSizeCallbacks :: "(string \<times> (cbattrs \<Rightarrow> jsnum)) list" where
  "defaultSizeCallbacks = [(''sizerWord'', sizerWord), (''sizerTerm'', sizerTerm)]"

subsection \<open>Default colorers\<close>

definition domainColor :: "'q gpvis \<Rightarrow> string jsobj" where
  "domainColor this =
     [(''BP'', fill10 this 1), (''MF'', fill10 this 2), (''CC'', fill10 this 3),
      (''multiple'', fill10 this 4)]"

definition colorerWord :: "'q gpvis \<Rightarrow> nat \<Rightarrow> cbattrs \<Rightarrow> string jsval \<times> nat" where
  "colorerWord this filli attrs = (Own (fill20 this (filli + 1)), filli + 1)"

text \<open>
  The loop of \<^verbatim>\<open>colorerTerm\<close> over the element's records: \<open>d\<close> is the variable
  \<^verbatim>\<open>domain\<close> (\<open>None\<close> while it is undefined), the result is its last value and the flag
  \<^verbatim>\<open>multiple\<close>. An empty string is as false as \<^verbatim>\<open>undefined\<close> in \<^verbatim>\<open>!domain\<close>; the callback's
  \<^verbatim>\<open>return false\<close> ends the loop.
\<close>

fun colorer_loop :: "string option \<Rightarrow> annotation list \<Rightarrow> string option \<times> bool" where
  "colorer_loop d [] = (d, False)"
| "colorer_loop d (v # vs) =
     (if d = None \<or> d = Some [] then colorer_loop (Some (domain v)) vs
      else if d \<noteq> Some (domain v) then (d, True)
      else colorer_loop d vs)"

definition colorerTerm :: "'q gpvis \<Rightarrow> cbattrs \<Rightarrow> string jsval" where
  "colorerTerm this attrs =
     (let ts = termdata attrs;
          (d, multiple) = colorer_loop None ts
      in if \<not> multiple
         then obj_get (domainColor this) (case d of None \<Rightarrow> ''undefined'' | Some k \<Rightarrow> k)
         else obj_get (domainColor this) ''multiple'')"

definition defaultColorCallbacks ::
    "'q gpvis \<Rightarrow> (string \<times> (nat \<Rightarrow> cbattrs \<Rightarrow> string jsval \<times> nat)) list" where
  "defaultColorCallbacks this =
     [(''colorerWord'', colorerWord this),
      (''colorerTerm'', \<lambda>filli attrs. (colorerTerm this attrs, filli))]"

subsection \<open>Default distillers\<close>

definition normalizeWord :: "string \<Rightarrow> string" where
  "normalizeWord w = strip_punct (if w \<noteq> toUpperCase w then toLowerCase w else w)"

definition distillerWord :: "'q gpvis \<Rightarrow> annotation \<Rightarrow> string list" where
  "distillerWord this r =
     filter (\<lambda>w. \<not> truthy truthy_num (obj_get (stopwords this) w) \<and> length w > 1)
       (map normalizeWord (split_spaces (term_name r)))"

text \<open>
  \<^verbatim>\<open>tstr.substr(0, maxLen - 1)\<close> is empty for a length below one. The character appended to
  a shortened name is the horizontal ellipsis, written here as the byte \<open>0x85\<close>.
\<close>

definition distillerTerm :: "'q gpvis \<Rightarrow> annotation \<Rightarrow> string list" where
  "distillerTerm this r =
     (let maxLen = maxTermLen this;
          tstr = term_name r
      in [if int (length tstr) > maxLen then take (nat (maxLen - 1)) tstr @ [CHR 0x85]
          else tstr])"

definition defaultDistillCallbacks ::
    "'q gpvis \<Rightarrow> (string \<times> (annotation \<Rightarrow> string list option)) list" where
  "defaultDistillCallbacks this =
     [(''distillerWord'', \<lambda>r. Some (distillerWord this r)),
      (''distillerTerm'', \<lambda>r. Some (distillerTerm this r))]"

subsection \<open>Default scorer\<close>

text \<open>
  \<^verbatim>\<open>scorerTerm\<close> and \<^verbatim>\<open>scorerWord\<close> are one function: a loop over the element's records
  that adds \<^verbatim>\<open>Math.abs(_logBase(10, t.p_value))\<close> to a running score starting at \<open>0.0\<close>.
\<close>

fun scorer_loop :: "jsnum \<Rightarrow> annotation list \<Rightarrow> jsnum" where
  "scorer_loop sc [] = sc"
| "scorer_loop sc (t # ts) =
     scorer_loop (js_add sc (Math_abs (logBase (Num 10) (p_value t)))) ts"

definition scorerWord :: "scattrs \<Rightarrow> jsnum" where
  "scorerWord attrs = scorer_loop (Num 0.0) (termdata attrs)"

definition scorerTerm :: "scattrs \<Rightarrow> jsnum" where
  "scorerTerm = scorerWord"

definition defaultScoreCallbacks :: "(string \<times> (scattrs \<Rightarrow> jsnum)) list" where
  "defaultScoreCallbacks = [(''scorerTerm'', scorerTerm), (''scorerWord'', scorerWord)]"

section \<open>The pipeline\<close>

subsection \<open>Normalizer\<close>

text \<open>
  The loop of \<^verbatim>\<open>_collapseClels\<close> over the pairs \<^verbatim>\<open>[str, t]\<close>. When \<^verbatim>\<open>h[str]\<close> is an own
  property, \<^verbatim>\<open>t\<close> is pushed onto its list. When it is undefined the property is created.
  When it is inherited from \<^verbatim>\<open>Object.prototype\<close> it is true as well, its property \<^verbatim>\<open>1\<close> is
  undefined, and the call of \<^verbatim>\<open>push\<close> on that throws a \<^verbatim>\<open>TypeError\<close>.
\<close>

fun collapse_each :: "(string \<times> 'r list) jsobj \<Rightarrow> (string \<times> 'r) list \<Rightarrow>
    js_error + (string \<times> 'r list) jsobj" where
  "collapse_each h [] = Inr h"
| "collapse_each h (v # vs) =
     (let str' = fst v; t = snd v
      in case obj_get h str' of
           Undefined \<Rightarrow> collapse_each (obj_set h str' (str', [t])) vs
         | Own e \<Rightarrow> collapse_each (obj_set h str' (fst e, snd e @ [t])) vs
         | Inherited \<Rightarrow> Inl TypeError)"

definition collapseClels :: "(string \<times> 'r) list \<Rightarrow> js_error + (string \<times> 'r list) list" where
  "collapseClels clels =
     (case collapse_each [] clels of
        Inl e \<Rightarrow> Inl e
      | Inr h \<Rightarrow> Inr (values_underscore h))"

subsection \<open>Scorer\<close>

text \<open>
  A score read from the table and used as a number: a missing entry is \<^verbatim>\<open>undefined\<close>,
  which is \<^verbatim>\<open>NaN\<close> in arithmetic, and so is an inherited function.
\<close>

fun ToNumber :: "jsnum jsval \<Rightarrow> jsnum" where
  "ToNumber (Own v) = v"
| "ToNumber Inherited = NaN"
| "ToNumber Undefined = NaN"

text \<open>
  \<^verbatim>\<open>$.each(clelScores, f)\<close> of jQuery on the score table. jQuery iterates an object by its
  keys unless it takes it for an array, which it does by the object's \<^verbatim>\<open>length\<close>
  property: a table whose entry \<^verbatim>\<open>length\<close> is \<open>0\<close> is an empty array for every version of
  jQuery, and \<^verbatim>\<open>f\<close> is not called at all. What jQuery does with another number under
  \<^verbatim>\<open>length\<close> depends on its version; the definition iterates such a table by its keys, and
  no statement below is about such a table.
\<close>

definition jQuery_each_hash ::
    "jsnum jsobj \<Rightarrow> (string \<Rightarrow> jsnum jsobj \<Rightarrow> jsnum jsobj) \<Rightarrow> jsnum jsobj" where
  "jQuery_each_hash obj f =
     (if map_of obj ''length'' = Some (Num 0) then obj
      else foldl (\<lambda>cs k. f k cs) obj (own_keys obj))"

definition score_each :: "(scattrs \<Rightarrow> jsnum) \<Rightarrow> jsnum jsobj \<times> jsnum \<Rightarrow> clel \<Rightarrow>
    jsnum jsobj \<times> jsnum" where
  "score_each scorer' acc cel =
     (let str' = fst cel;
          terms = snd cel;
          score' = scorer' \<lparr>str = str', termdata = terms\<rparr>
      in (obj_set (fst acc) str' score', js_add (snd acc) score'))"

definition scoreClels :: "'q gpvis \<Rightarrow> clel list \<Rightarrow> js_error + jsnum jsobj" where
  "scoreClels this clels =
     (case (case scorer this of
              Some f \<Rightarrow> Inr f
            | None \<Rightarrow> getCallback defaultScoreCallbacks this ''scorer'') of
        Inl e \<Rightarrow> Inl e
      | Inr scorer' \<Rightarrow>
          (let (clelScores, totalScore) = foldl (score_each scorer') ([], Num 0.0) clels
           in Inr (jQuery_each_hash clelScores
                 (\<lambda>k cs. obj_set cs k (js_div (ToNumber (obj_get cs k)) totalScore)))))"

subsection \<open>Selector\<close>

text \<open>
  The comparison function handed to \<^verbatim>\<open>sort\<close> returns the boolean
  \<^verbatim>\<open>clelScores[a[0]] < clelScores[b[0]]\<close>, which the engine reads as the number 1 or 0.
  (Two scores that are both inherited functions are compared as strings by the engine and
  as \<^verbatim>\<open>NaN\<close> here; the result is 1 or 0 either way.)
\<close>

definition clel_compare :: "jsnum jsobj \<Rightarrow> clel \<Rightarrow> clel \<Rightarrow> int" where
  "clel_compare clelScores a b =
     (if js_less (ToNumber (obj_get clelScores (fst a))) (ToNumber (obj_get clelScores (fst b)))
      then 1 else 0)"

text \<open>\<^verbatim>\<open>xs.slice(0, n)\<close>; a negative \<open>n\<close> counts from the end.\<close>

definition slice0 :: "'a list \<Rightarrow> int \<Rightarrow> 'a list" where
  "slice0 xs n = take (nat (if n < 0 then max (int (length xs) + n) 0 else n)) xs"

text \<open>
  \<^verbatim>\<open>Array.prototype.sort\<close> belongs to the JavaScript engine and is the parameter
  \<open>Array_sort\<close>.
\<close>

definition sortAndCapClels :: "((clel \<Rightarrow> clel \<Rightarrow> int) \<Rightarrow> clel list \<Rightarrow> clel list) \<Rightarrow>
    'q gpvis \<Rightarrow> clel list \<Rightarrow> jsnum jsobj \<Rightarrow> clel list" where
  "sortAndCapClels Array_sort this clels clelScores =
     (let clels' = Array_sort (clel_compare clelScores) clels
      in if maxN this \<noteq> 0 then slice0 clels' (maxN this) else clels')"

subsection \<open>The sort of V8\<close>

text \<open>
  The sort of the V8 engine since its version 7.0, for an array of fewer than 64 elements:
  the run at the start of the array is counted, and reversed if it descends strictly, and
  the other elements are inserted into it by binary search. An element moves in front of
  another one only on a negative result of the comparison function.
\<close>

fun v8_run :: "('a \<Rightarrow> 'a \<Rightarrow> int) \<Rightarrow> bool \<Rightarrow> 'a \<Rightarrow> 'a list \<Rightarrow> nat" where
  "v8_run cmp desc prev [] = 0"
| "v8_run cmp desc prev (x # xs) =
     (let order = cmp x prev
      in if (if desc then 0 \<le> order else order < 0) then 0
         else Suc (v8_run cmp desc x xs))"

fun v8_count_and_make_run :: "('a \<Rightarrow> 'a \<Rightarrow> int) \<Rightarrow> 'a list \<Rightarrow> 'a list \<times> 'a list" where
  "v8_count_and_make_run cmp [] = ([], [])"
| "v8_count_and_make_run cmp [x] = ([x], [])"
| "v8_count_and_make_run cmp (x0 # x1 # xs) =
     (let desc = (cmp x1 x0 < 0);
          n = 2 + v8_run cmp desc x1 xs;
          run = take n (x0 # x1 # xs)
      in (if desc then rev run else run, drop n (x0 # x1 # xs)))"

function v8_search :: "('a \<Rightarrow> 'a \<Rightarrow> int) \<Rightarrow> 'a \<Rightarrow> 'a list \<Rightarrow> nat \<Rightarrow> nat \<Rightarrow> nat" where
  "v8_search cmp pivot a left right =
     (if left < right
      then (let mid = left + (right - left) div 2
            in if cmp pivot (a ! mid) < 0 then v8_search cmp pivot a left mid
               else v8_search cmp pivot a (mid + 1) right)
      else left)"
  by pat_completeness auto
termination
  by (relation "measure (\<lambda>(cmp, pivot, a, left, right). right - left)") auto

declare v8_search.simps [simp del]

definition v8_binary_insertion :: "('a \<Rightarrow> 'a \<Rightarrow> int) \<Rightarrow> 'a list \<Rightarrow> 'a list \<Rightarrow> 'a list" where
  "v8_binary_insertion cmp run rest =
     foldl (\<lambda>a pivot. let left = v8_search cmp pivot a 0 (length a)
                       in take left a @ pivot # drop left a) run rest"

definition v8_sort :: "('a \<Rightarrow> 'a \<Rightarrow> int) \<Rightarrow> 'a list \<Rightarrow> 'a list" where
  "v8_sort cmp xs =
     (let (run, rest) = v8_count_and_make_run cmp xs in v8_binary_insertion cmp run rest)"

subsection \<open>Attribute mapper\<close>

definition transform_each :: "(cbattrs \<Rightarrow> jsnum) \<Rightarrow> (nat \<Rightarrow> cbattrs \<Rightarrow> string jsval \<times> nat) \<Rightarrow>
    jsnum jsobj \<Rightarrow> jsnum \<Rightarrow> cloudword list \<times> nat \<Rightarrow> clel \<Rightarrow> cloudword list \<times> nat" where
  "transform_each sizer' colorer' clelScores scaling' acc v =
     (let str' = fst v;
          termdata' = snd v;
          score' = ToNumber (obj_get clelScores str');
          cbattrs' = \<lparr>str = str', termdata = termdata', score = score', scaling = scaling'\<rparr>;
          size' = sizer' cbattrs';
          (color', filli') = colorer' (snd acc) cbattrs'
      in (fst acc @ [\<lparr>word_text = str', word_size = size', word_color = color',
                       word_termdata = termdata'\<rparr>], filli'))"

definition renderTransformStr :: "'q gpvis \<Rightarrow> clel list \<Rightarrow> jsnum jsobj \<Rightarrow> jsnum \<Rightarrow>
    js_error + cloudword list" where
  "renderTransformStr this clels clelScores scaling' =
     (case (case sizer this of
              Some f \<Rightarrow> Inr f
            | None \<Rightarrow> getCallback defaultSizeCallbacks this ''sizer'') of
        Inl e \<Rightarrow> Inl e
      | Inr sizer' \<Rightarrow>
          (case (case colorer this of
                   Some f \<Rightarrow> Inr (\<lambda>filli attrs. (f attrs, filli))
                 | None \<Rightarrow> getCallback (defaultColorCallbacks this) this ''colorer'') of
             Inl e \<Rightarrow> Inl e
           | Inr colorer' \<Rightarrow>
               Inr (fst (foldl (transform_each sizer' colorer' clelScores scaling') ([], 0) clels))))"

subsection \<open>Render entry points\<close>

text \<open>
  What a render call does to the outside, in order: the query sent to the annotation
  service, the subscription of the warning handler, and the start of the layout with the
  words to place. A function returns these events with its result, an error when it
  throws. \<open>render\<close> covers the call and the callback that the service runs with its
  answer; when the service never answers, the callback never runs.
\<close>

datatype 'q event = QueryIssued 'q | WarnSubscribed | LayoutStarted "cloudword list"

definition renderCloud :: "((clel \<Rightarrow> clel \<Rightarrow> int) \<Rightarrow> clel list \<Rightarrow> clel list) \<Rightarrow> 'q gpvis \<Rightarrow>
    (string \<times> annotation) list \<Rightarrow> 'q event list \<times> (js_error + unit)" where
  "renderCloud Array_sort this clels =
     (let w = width this;
          h = height this;
          scaling' = js_div (js_div (js_add w h) (Num 2)) (Num 600)
      in if length (container this) \<noteq> 1 then ([], Inl ContainerError)
         else case collapseClels clels of
                Inl e \<Rightarrow> ([], Inl e)
              | Inr clels1 \<Rightarrow>
                  (case scoreClels this clels1 of
                     Inl e \<Rightarrow> ([], Inl e)
                   | Inr clelScores \<Rightarrow>
                       (let clels2 = sortAndCapClels Array_sort this clels1 clelScores;
                            evs = (if warnings this then [WarnSubscribed] else [])
                        in case renderTransformStr this clels2 clelScores scaling' of
                             Inl e \<Rightarrow> (evs, Inl e)
                           | Inr words \<Rightarrow> (evs @ [LayoutStarted words], Inr ()))))"

definition renderStored :: "((clel \<Rightarrow> clel \<Rightarrow> int) \<Rightarrow> clel list \<Rightarrow> clel list) \<Rightarrow> 'q gpvis \<Rightarrow>
    annotation list \<Rightarrow> 'q event list \<times> (js_error + unit)" where
  "renderStored Array_sort this data =
     (case (case distiller this of
              Some f \<Rightarrow> Inr f
            | None \<Rightarrow> getCallback (defaultDistillCallbacks this) this ''distiller'') of
        Inl e \<Rightarrow> ([], Inl e)
      | Inr distiller' \<Rightarrow>
          (let twords = concat (map (\<lambda>r. map (\<lambda>s. (s, r))
                          (case distiller' r of None \<Rightarrow> [] | Some ss \<Rightarrow> ss)) data)
           in renderCloud Array_sort this twords))"

definition render :: "((clel \<Rightarrow> clel \<Rightarrow> int) \<Rightarrow> clel list \<Rightarrow> clel list) \<Rightarrow> 'q gpvis \<Rightarrow> 'q \<Rightarrow>
    'q event list \<times> (js_error + unit)" where
  "render Array_sort this attrs =
     (let (evs, res) = (case gp this attrs of
                          None \<Rightarrow> ([], Inr ())
                        | Some data \<Rightarrow> renderStored Array_sort this data)
      in (QueryIssued attrs # evs, res))"

section \<open>Notions for the statements\<close>

text \<open>A number lies in the closed interval from \<open>lo\<close> to \<open>hi\<close>.\<close>

definition in_range :: "jsnum \<Rightarrow> real \<Rightarrow> real \<Rightarrow> bool" where
  "in_range x lo hi = (case x of Num v \<Rightarrow> lo \<le> v \<and> v \<le> hi | _ \<Rightarrow> False)"

text \<open>
  The raw score of an element under a scorer function, and the scorer function that
  \<^verbatim>\<open>_scoreClels\<close> ends up calling: the widget's own, or the default of its mode.
\<close>

definition raw :: "(scattrs \<Rightarrow> jsnum) \<Rightarrow> clel \<Rightarrow> jsnum" where
  "raw f cel = f \<lparr>str = fst cel, termdata = snd cel\<rparr>"

definition the_scorer :: "'q gpvis \<Rightarrow> scattrs \<Rightarrow> jsnum" where
  "the_scorer this =
     (case scorer this of
        Some f \<Rightarrow> f
      | None \<Rightarrow> if useTerms this then scorerTerm else scorerWord)"

text \<open>
  The distiller that \<^verbatim>\<open>renderStored\<close> ends up calling: the widget's own, or the default of
  its mode.
\<close>

definition the_distiller :: "'q gpvis \<Rightarrow> annotation \<Rightarrow> string list option" where
  "the_distiller this =
     (case distiller this of
        Some f \<Rightarrow> f
      | None \<Rightarrow> if useTerms this then (\<lambda>r. Some (distillerTerm this r))
                else (\<lambda>r. Some (distillerWord this r)))"

text \<open>The table after the callback \<^verbatim>\<open>obj[k] = g(obj[k])\<close> has run on the keys \<open>ks\<close>.\<close>

definition scaled :: "(jsnum \<Rightarrow> jsnum) \<Rightarrow> string set \<Rightarrow> jsnum jsobj \<Rightarrow> jsnum jsobj" where
  "scaled g ks obj = map (\<lambda>e. if fst e \<in> ks then (fst e, g (snd e)) else e) obj"

text \<open>
  The distinct elements of a list in the order of their first occurrence, the records
  paired with a text, in the order of the pairs, and the order in which an object
  enumerates keys that were created in the order \<open>ks\<close>.
\<close>

definition first_seen :: "'a list \<Rightarrow> 'a list" where
  "first_seen xs = rev (remdups (rev xs))"

definition records_of :: "string \<Rightarrow> (string \<times> 'r) list \<Rightarrow> 'r list" where
  "records_of t clels = map snd (filter (\<lambda>p. fst p = t) clels)"

definition key_order :: "string list \<Rightarrow> string list" where
  "key_order ks = sort_key index_val (filter is_index ks) @ filter (\<lambda>k. \<not> is_index k) ks"

text \<open>The hash \<^verbatim>\<open>h\<close> after the loop has run over the pairs \<open>pre\<close>.\<close>

definition hash_of :: "(string \<times> 'r) list \<Rightarrow> (string \<times> 'r list) jsobj" where
  "hash_of pre = map (\<lambda>t. (t, (t, records_of t pre))) (first_seen (map fst pre))"

section \<open>Example data\<close>

text \<open>
  The widget of the example in the constructor's documentation, with the default
  attributes, three stop words, an annotation service that does not answer, and the
  colours of d3's scales \<^verbatim>\<open>category10\<close> and \<^verbatim>\<open>category20\<close>, handed out in this order.
\<close>

definition category10 :: "string list" where
  "category10 =
     [''#1f77b4'', ''#ff7f0e'', ''#2ca02c'', ''#d62728'', ''#9467bd'',
      ''#8c564b'', ''#e377c2'', ''#7f7f7f'', ''#bcbd22'', ''#17becf'']"

definition category20 :: "string list" where
  "category20 =
     [''#1f77b4'', ''#aec7e8'', ''#ff7f0e'', ''#ffbb78'', ''#2ca02c'',
      ''#98df8a'', ''#d62728'', ''#ff9896'', ''#9467bd'', ''#c5b0d5'',
      ''#8c564b'', ''#c49c94'', ''#e377c2'', ''#f7b6d2'', ''#7f7f7f'',
      ''#c7c7c7'', ''#bcbd22'', ''#dbdb8d'', ''#17becf'', ''#9edae5'']"

definition example_widget :: "(string list \<times> string) gpvis" where
  "example_widget =
     \<lparr>container = [''myContainer''], width = Num 600, height = Num 600, maxN = 0,
      maxTermLen = 25, warnings = False, useTerms = False, sizer = None, colorer = None,
      scorer = None, distiller = None, stopwords = stopword_hash [''of'', ''the'', ''in''],
      gp = (\<lambda>q. None),
      fill10 = (\<lambda>n. category10 ! ((n - 1) mod 10)),
      fill20 = (\<lambda>n. category20 ! ((n - 1) mod 20))\<rparr>"

definition example_record :: "string \<Rightarrow> real \<Rightarrow> annotation" where
  "example_record name p =
     \<lparr>term_id = ''GO:0000001'', term_name = name, p_value = Num p, domain = ''BP''\<rparr>"

section \<open>The default sizers\<close>

lemma cap_Num:
  "cap (Num x) (Num c) = Num (if x < 12 then 12 else if 72 * c < x then 72 * c else x)"
  by (simp add: cap_def capValue_def)

lemma cap_in_range:
  assumes "1 / 6 \<le> c"
  shows "in_range (cap (Num x) (Num c)) 12 (72 * c)"
  using assms by (simp add: cap_Num in_range_def)

lemma logBase_Num:
  assumes "0 < x" "0 < b" "b \<noteq> 1"
  shows "logBase (Num b) (Num x) = Num (log b x)"
  using assms by (simp add: logBase_def log_def)

lemma sizerTerm_Num:
  assumes "score attrs = Num s" "scaling attrs = Num c"
  shows "sizerTerm attrs = cap (Num (s * 800 * c)) (Num c)"
  using assms by (simp add: sizerTerm_def)

lemma sizerWord_Num:
  assumes "score attrs = Num s" "scaling attrs = Num c" "0 \<le> s"
  shows "sizerWord attrs = cap (Num (log 2 (s * 600 + 1) * 12 * c)) (Num c)"
proof -
  have "0 < s * 600 + 1" using assms(3) by simp
  then have "logBase (Num 2) (Num (s * 600 + 1)) = Num (log 2 (s * 600 + 1))"
    by (simp add: logBase_Num)
  then show ?thesis
    using assms(1,2) by (simp add: sizerWord_def)
qed

text \<open>
  Claim C7, as amended. For every score in \<open>[0, 1]\<close> and every scaling constant of at least
  \<open>1/6\<close>, the default sizer of word mode and the one of term mode return a value in the
  interval \<open>[12, 72 \<times> scaling]\<close>.
\<close>

theorem sizer_in_range:
  assumes "score attrs = Num s" "scaling attrs = Num c" "0 \<le> s" "s \<le> 1" "1 / 6 \<le> c"
  shows "in_range (sizerWord attrs) 12 (72 * c) \<and> in_range (sizerTerm attrs) 12 (72 * c)"
  using assms by (simp add: sizerWord_Num sizerTerm_Num cap_in_range)

theorem sizer_in_range_witness:
  "in_range (sizerWord \<lparr>str = ''cell'', termdata = [], score = Num 0, scaling = Num 1\<rparr>)
     12 (72 * 1) \<and>
   in_range (sizerTerm \<lparr>str = ''cell'', termdata = [], score = Num 0, scaling = Num 1\<rparr>)
     12 (72 * 1)"
  using sizer_in_range
    [of "\<lparr>str = ''cell'', termdata = [], score = Num 0, scaling = Num 1\<rparr>" 0 1]
  by simp

text \<open>
  Claim C7 as the specification states it fails for a positive scaling constant below
  \<open>1/6\<close>, that is for a container with \<open>width + height < 200\<close>: the upper bound
  \<open>72 \<times> scaling\<close> is then below 12 and the interval is empty. At scaling \<open>1/10\<close> and score
  0 both sizers return 12, above the upper bound 7.2.
\<close>

theorem sizer_small_scaling_counterexample:
  "sizerWord \<lparr>str = ''cell'', termdata = [], score = Num 0, scaling = Num (1 / 10)\<rparr> = Num 12 \<and>
   sizerTerm \<lparr>str = ''cell'', termdata = [], score = Num 0, scaling = Num (1 / 10)\<rparr> = Num 12 \<and>
   \<not> in_range (Num 12) 12 (72 * (1 / 10))"
  by (simp add: sizerWord_def sizerTerm_def logBase_def cap_Num in_range_def)

section \<open>The default scorer\<close>

lemma scorer_loop_Num:
  assumes "map p_value td = map Num ps" "\<forall>p\<in>set ps. 0 < p"
  shows "scorer_loop (Num a) td = Num (a + (\<Sum>p\<leftarrow>ps. \<bar>log 10 p\<bar>))"
  using assms
proof (induction td arbitrary: a ps)
  case Nil
  then show ?case by simp
next
  case (Cons t td)
  then obtain p ps' where ps: "ps = p # ps'" by (cases ps) auto
  with Cons.prems have p: "p_value t = Num p" "0 < p"
    and rest: "map p_value td = map Num ps'" "\<forall>p\<in>set ps'. 0 < p"
    by auto
  have "logBase (Num 10) (p_value t) = Num (log 10 p)"
    using p by (simp add: logBase_Num)
  then show ?case
    using Cons.IH[OF rest] ps by (simp add: algebra_simps)
qed

text \<open>
  Claim C9. The default scorer, one function for word mode and term mode, returns the sum
  over the element's records of the absolute value of the base-10 logarithm of the
  record's p-value. The p-values \<open>ps\<close> of the records are positive numbers, as the data
  model has them.
\<close>

theorem scorer_sum_abs_log10:
  assumes "map p_value (termdata attrs) = map Num ps" "\<forall>p\<in>set ps. 0 < p"
  shows "scorerWord attrs = Num (\<Sum>p\<leftarrow>ps. \<bar>log 10 p\<bar>) \<and> scorerTerm attrs = scorerWord attrs"
  using scorer_loop_Num[OF assms, of 0] by (simp add: scorerWord_def scorerTerm_def)

theorem scorer_sum_abs_log10_witness:
  "scorerWord \<lparr>str = ''cell'', termdata =
      [\<lparr>term_id = ''GO:1'', term_name = ''cell cycle'', p_value = Num 10, domain = ''BP''\<rparr>,
       \<lparr>term_id = ''GO:2'', term_name = ''cell death'', p_value = Num 1, domain = ''BP''\<rparr>]\<rparr>
     = Num (\<Sum>p\<leftarrow>[10, 1]. \<bar>log 10 p\<bar>)"
  using scorer_sum_abs_log10 [of "\<lparr>str = ''cell'', termdata =
      [\<lparr>term_id = ''GO:1'', term_name = ''cell cycle'', p_value = Num 10, domain = ''BP''\<rparr>,
       \<lparr>term_id = ''GO:2'', term_name = ''cell death'', p_value = Num 1, domain = ''BP''\<rparr>]\<rparr>"
      "[10, 1]"]
  by simp

subsection \<open>Scores of the example records\<close>

lemma log10_tenth: "log 10 (1 / 10) = -1"
  by (simp add: log_divide)

lemma scorerWord_one: "scorerWord \<lparr>str = w, termdata = [example_record n 1]\<rparr> = Num 0"
proof -
  have "scorer_loop (Num 0) [example_record n 1] = Num (0 + (\<Sum>p\<leftarrow>[1]. \<bar>log 10 p\<bar>))"
    by (rule scorer_loop_Num) (simp_all add: example_record_def)
  then show ?thesis by (simp add: scorerWord_def)
qed

lemma scorerWord_tenths:
  "scorerWord \<lparr>str = w, termdata = map (\<lambda>n. example_record n (1 / 10)) ns\<rparr> = Num (length ns)"
proof -
  have "scorer_loop (Num 0) (map (\<lambda>n. example_record n (1 / 10)) ns) =
      Num (0 + (\<Sum>p\<leftarrow>map (\<lambda>n. 1 / 10) ns. \<bar>log 10 p\<bar>))"
    by (rule scorer_loop_Num) (simp_all add: example_record_def comp_def)
  moreover have "(\<Sum>p\<leftarrow>map (\<lambda>n. 1 / 10 :: real) ns. \<bar>log 10 p\<bar>) = length ns"
    by (induction ns) (simp_all add: log10_tenth)
  ultimately show ?thesis by (simp add: scorerWord_def)
qed

section \<open>The Scorer\<close>

subsection \<open>Enumeration of a table\<close>

lemma own_entries_mset: "mset (own_entries obj) = mset obj"
  by (simp add: own_entries_def multiset_partition[symmetric])

lemma own_entries_set: "set (own_entries obj) = set obj"
  using own_entries_mset[of obj] by (metis set_mset_mset)

lemma own_keys_set: "set (own_keys obj) = fst ` set obj"
  by (simp add: own_keys_def own_entries_set)

lemma own_keys_distinct:
  assumes "distinct (map fst obj)"
  shows "distinct (own_keys obj)"
proof -
  have "mset (map fst (own_entries obj)) = mset (map fst obj)"
    using own_entries_mset[of obj] by (metis mset_map)
  then show ?thesis
    using assms by (metis own_keys_def mset_eq_imp_distinct_iff)
qed

lemma obj_get_own:
  assumes "distinct (map fst obj)" "(k, v) \<in> set obj"
  shows "obj_get obj k = Own v"
  using assms by (simp add: obj_get_def)

lemma obj_set_own:
  assumes "k \<in> fst ` set obj" "k \<noteq> ''__proto__''"
  shows "obj_set obj k v = map (\<lambda>e. if fst e = k then (k, v) else e) obj"
  using assms by (auto simp: obj_set_def)

subsection \<open>The normalising loop\<close>

lemma scale_step:
  assumes "distinct (map fst obj)" "k \<in> fst ` set obj" "k \<noteq> ''__proto__''"
  shows "obj_set obj k (g (ToNumber (obj_get obj k))) = scaled g {k} obj"
proof -
  from assms(2) obtain v where v: "(k, v) \<in> set obj" by auto
  have get: "obj_get obj k = Own v" using assms(1) v by (rule obj_get_own)
  have "\<And>e. e \<in> set obj \<Longrightarrow> fst e = k \<Longrightarrow> snd e = v"
    using assms(1) v by (metis eq_key_imp_eq_value prod.collapse)
  then show ?thesis
    using assms(2,3) get by (auto simp: obj_set_own scaled_def)
qed

lemma scaled_keys: "map fst (scaled g ks obj) = map fst obj"
  by (simp add: scaled_def comp_def cong: map_cong)

lemma scaled_scaled:
  assumes "k \<notin> ks"
  shows "scaled g ks (scaled g {k} obj) = scaled g (insert k ks) obj"
  using assms by (auto simp: scaled_def)

lemma scale_fold:
  assumes "distinct (map fst obj)" "distinct ks" "set ks \<subseteq> fst ` set obj"
    "''__proto__'' \<notin> set ks"
  shows "foldl (\<lambda>cs k. obj_set cs k (g (ToNumber (obj_get cs k)))) obj ks = scaled g (set ks) obj"
  using assms
proof (induction ks arbitrary: obj)
  case Nil
  then show ?case by (simp add: scaled_def)
next
  case (Cons k ks)
  have step: "obj_set obj k (g (ToNumber (obj_get obj k))) = scaled g {k} obj"
    using Cons.prems by (intro scale_step) auto
  have keys: "map fst (scaled g {k} obj) = map fst obj" by (rule scaled_keys)
  have "foldl (\<lambda>cs k. obj_set cs k (g (ToNumber (obj_get cs k)))) (scaled g {k} obj) ks
      = scaled g (set ks) (scaled g {k} obj)"
  proof (rule Cons.IH)
    show "distinct (map fst (scaled g {k} obj))" using Cons.prems(1) keys by simp
    show "distinct ks" using Cons.prems(2) by simp
    have "fst ` set (scaled g {k} obj) = fst ` set obj"
      using keys by (metis set_map)
    then show "set ks \<subseteq> fst ` set (scaled g {k} obj)" using Cons.prems(3) by simp
    show "''__proto__'' \<notin> set ks" using Cons.prems(4) by simp
  qed
  also have "\<dots> = scaled g (insert k (set ks)) obj"
    using Cons.prems(2) by (intro scaled_scaled) simp
  finally show ?case using step by simp
qed

lemma each_hash_scaled:
  assumes "distinct (map fst obj)" "''__proto__'' \<notin> fst ` set obj"
    "''length'' \<notin> fst ` set obj"
  shows "jQuery_each_hash obj (\<lambda>k cs. obj_set cs k (g (ToNumber (obj_get cs k)))) =
     map (\<lambda>e. (fst e, g (snd e))) obj"
proof -
  have nolen: "map_of obj ''length'' = None"
    using assms(3) by (simp add: map_of_eq_None_iff)
  have "foldl (\<lambda>cs k. obj_set cs k (g (ToNumber (obj_get cs k)))) obj (own_keys obj)
      = scaled g (set (own_keys obj)) obj"
    using assms(1,2) by (intro scale_fold) (simp_all add: own_keys_distinct own_keys_set)
  also have "\<dots> = map (\<lambda>e. (fst e, g (snd e))) obj"
    by (simp add: scaled_def own_keys_set)
  finally show ?thesis using nolen by (simp add: jQuery_each_hash_def)
qed

subsection \<open>The scoring loop\<close>

lemma scorer_lookup:
  "(case scorer this of
      Some f \<Rightarrow> Inr f
    | None \<Rightarrow> getCallback defaultScoreCallbacks this ''scorer'') = Inr (the_scorer this)"
  by (simp add: the_scorer_def getCallback_def defaultScoreCallbacks_def split: option.splits)

lemma score_fold:
  assumes "distinct (map fst clels)" "''__proto__'' \<notin> fst ` set clels"
    "fst ` set clels \<inter> fst ` set tbl = {}"
  shows "foldl (score_each f) (tbl, tot) clels =
     (tbl @ map (\<lambda>cel. (fst cel, raw f cel)) clels, foldl js_add tot (map (raw f) clels))"
  using assms
proof (induction clels arbitrary: tbl tot)
  case Nil
  then show ?case by simp
next
  case (Cons cel clels)
  have new: "fst cel \<notin> fst ` set tbl" "fst cel \<noteq> ''__proto__''"
    using Cons.prems by auto
  have one: "score_each f (tbl, tot) cel = (tbl @ [(fst cel, raw f cel)], js_add tot (raw f cel))"
    using new by (simp add: score_each_def obj_set_def raw_def Let_def)
  have "foldl (score_each f) (tbl @ [(fst cel, raw f cel)], js_add tot (raw f cel)) clels =
      ((tbl @ [(fst cel, raw f cel)]) @ map (\<lambda>cel. (fst cel, raw f cel)) clels,
       foldl js_add (js_add tot (raw f cel)) (map (raw f) clels))"
    using Cons.prems by (intro Cons.IH) auto
  then show ?case using one by simp
qed

text \<open>
  The score table of a list of elements with distinct texts, none of them \<^verbatim>\<open>__proto__\<close> or
  \<^verbatim>\<open>length\<close>: every element's raw score divided by the total, in the order of the list.
\<close>

lemma scoreClels_table:
  assumes "distinct (map fst clels)" "''__proto__'' \<notin> fst ` set clels"
    "''length'' \<notin> fst ` set clels"
  shows "scoreClels this clels =
     Inr (map (\<lambda>cel. (fst cel, js_div (raw (the_scorer this) cel)
            (foldl js_add (Num 0) (map (raw (the_scorer this)) clels)))) clels)"
proof -
  let ?f = "the_scorer this"
  let ?tbl = "map (\<lambda>cel. (fst cel, raw ?f cel)) clels"
  let ?tot = "foldl js_add (Num 0) (map (raw ?f) clels)"
  have fold: "foldl (score_each ?f) ([], Num 0) clels = (?tbl, ?tot)"
    using score_fold[of clels "[]" ?f "Num 0"] assms(1,2) by simp
  have keys: "map fst ?tbl = map fst clels" by (simp add: comp_def)
  have "jQuery_each_hash ?tbl (\<lambda>k cs. obj_set cs k (js_div (ToNumber (obj_get cs k)) ?tot)) =
      map (\<lambda>e. (fst e, js_div (snd e) ?tot)) ?tbl"
    using assms keys
    by (intro each_hash_scaled[where g = "\<lambda>v. js_div v ?tot"])
      (simp_all add: image_image comp_def)
  then show ?thesis
    using fold by (simp add: scoreClels_def scorer_lookup comp_def)
qed

lemma the_scorer_example: "the_scorer example_widget = scorerWord"
  by (simp add: the_scorer_def example_widget_def)

subsection \<open>Errors and the zero total\<close>

lemma foldl_js_add_zero:
  assumes "\<forall>x\<in>set xs. x = Num 0"
  shows "foldl js_add (Num 0) xs = Num 0"
  using assms by (induction xs) simp_all

text \<open>
  Claim C2, as amended. For every list of cloud elements the Scorer signals no error and
  returns a score table, whatever the total of the raw scores. When every raw score is
  zero, and so is the total, each entry of the table is the quotient \<open>0/0\<close>, that is
  \<^verbatim>\<open>NaN\<close>; this part is for elements with distinct texts other than \<^verbatim>\<open>__proto__\<close> and
  \<^verbatim>\<open>length\<close>.
\<close>

theorem scoreClels_no_error:
  "(\<exists>tbl. scoreClels this clels = Inr tbl) \<and>
   (distinct (map fst clels) \<and> ''__proto__'' \<notin> fst ` set clels \<and>
    ''length'' \<notin> fst ` set clels \<and> (\<forall>cel\<in>set clels. raw (the_scorer this) cel = Num 0) \<longrightarrow>
      scoreClels this clels = Inr (map (\<lambda>cel. (fst cel, NaN)) clels))"
proof
  show "\<exists>tbl. scoreClels this clels = Inr tbl"
    by (simp add: scoreClels_def scorer_lookup split: prod.splits)
  show "distinct (map fst clels) \<and> ''__proto__'' \<notin> fst ` set clels \<and>
    ''length'' \<notin> fst ` set clels \<and> (\<forall>cel\<in>set clels. raw (the_scorer this) cel = Num 0) \<longrightarrow>
      scoreClels this clels = Inr (map (\<lambda>cel. (fst cel, NaN)) clels)"
  proof
    assume a: "distinct (map fst clels) \<and> ''__proto__'' \<notin> fst ` set clels \<and>
      ''length'' \<notin> fst ` set clels \<and> (\<forall>cel\<in>set clels. raw (the_scorer this) cel = Num 0)"
    then have "foldl js_add (Num 0) (map (raw (the_scorer this)) clels) = Num 0"
      by (intro foldl_js_add_zero) auto
    then show "scoreClels this clels = Inr (map (\<lambda>cel. (fst cel, NaN)) clels)"
      using a by (simp add: scoreClels_table)
  qed
qed

theorem scoreClels_no_error_witness:
  "scoreClels example_widget
     [(''cell'', [example_record ''cell cycle'' 1]),
      (''cycle'', [example_record ''cell cycle'' 1])] =
   Inr [(''cell'', NaN), (''cycle'', NaN)]"
  using scoreClels_no_error[of example_widget
     "[(''cell'', [example_record ''cell cycle'' 1]),
       (''cycle'', [example_record ''cell cycle'' 1])]"]
  by (simp add: the_scorer_example raw_def scorerWord_one)

text \<open>
  Claim C2 as the specification states it fails: one element whose only record has the
  p-value 1 has the raw score 0, the total is 0, and the Scorer returns a table instead of
  signalling an error.
\<close>

theorem scoreClels_zero_total_counterexample:
  "foldl js_add (Num 0) (map (raw (the_scorer example_widget))
      [(''cell'', [example_record ''cell cycle'' 1])]) = Num 0 \<and>
   scoreClels example_widget [(''cell'', [example_record ''cell cycle'' 1])] =
     Inr [(''cell'', NaN)]"
  by (simp add: scoreClels_table the_scorer_example raw_def scorerWord_one)

subsection \<open>Normalised scores\<close>

lemma foldl_js_add_Num: "foldl js_add (Num a) (map Num xs) = Num (a + sum_list xs)"
  by (induction xs arbitrary: a) (simp_all add: add.assoc)

lemma map_pair_zip: "map (\<lambda>x. (f x, g (h x))) xs = zip (map f xs) (map g (map h xs))"
  by (induction xs) simp_all

lemma sum_list_div: "(\<Sum>s\<leftarrow>ss. s / t) = sum_list ss / (t :: real)"
  by (induction ss) (simp_all add: add_divide_distrib)

text \<open>
  For elements with distinct texts other than \<^verbatim>\<open>__proto__\<close> and \<^verbatim>\<open>length\<close>, with raw scores
  \<open>ss\<close> that are not negative and have a positive total, the table gives every element its
  raw score divided by the total; these scores are not negative and their sum is 1.
\<close>

lemma scoreClels_normalises:
  assumes "distinct (map fst clels)" "''__proto__'' \<notin> fst ` set clels"
    "''length'' \<notin> fst ` set clels"
    and raws: "map (raw (the_scorer this)) clels = map Num ss"
    and nonneg: "\<forall>s\<in>set ss. 0 \<le> s" and pos: "0 < sum_list ss"
  shows "scoreClels this clels =
      Inr (zip (map fst clels) (map (\<lambda>s. Num (s / sum_list ss)) ss))"
    and "(\<Sum>s\<leftarrow>ss. s / sum_list ss) = 1"
    and "\<forall>s\<in>set ss. 0 \<le> s / sum_list ss"
proof -
  have tot: "foldl js_add (Num 0) (map (raw (the_scorer this)) clels) = Num (sum_list ss)"
    using foldl_js_add_Num[of 0 ss] raws by simp
  have "map (\<lambda>cel. (fst cel, js_div (raw (the_scorer this) cel) (Num (sum_list ss)))) clels =
      zip (map fst clels)
        (map (\<lambda>v. js_div v (Num (sum_list ss))) (map (raw (the_scorer this)) clels))"
    by (rule map_pair_zip)
  also have "\<dots> = zip (map fst clels) (map (\<lambda>s. Num (s / sum_list ss)) ss)"
    using pos by (simp add: raws comp_def)
  finally show "scoreClels this clels =
      Inr (zip (map fst clels) (map (\<lambda>s. Num (s / sum_list ss)) ss))"
    using scoreClels_table[OF assms(1-3), of this] tot by simp
  show "(\<Sum>s\<leftarrow>ss. s / sum_list ss) = 1"
    using pos by (simp add: sum_list_div)
  show "\<forall>s\<in>set ss. 0 \<le> s / sum_list ss"
    using nonneg pos by simp
qed

text \<open>
  Claim C3 fails on the code when one of the texts is \<^verbatim>\<open>length\<close>. Three elements with the
  raw scores 0, 1 and 1 under the default scorer have the total 2, so that the normalised
  scores are 0, 1/2 and 1/2. The table's entry \<^verbatim>\<open>length\<close> is 0, jQuery takes the table for an
  empty array, the dividing callback never runs, and the Scorer returns the raw scores,
  whose sum is 2.
\<close>

theorem scoreClels_length_key:
  "scoreClels example_widget
     [(''length'', [example_record ''Birth length less than 3rd percentile'' 1]),
      (''cell'', [example_record ''cell cycle'' (1 / 10)]),
      (''cycle'', [example_record ''cell cycle'' (1 / 10)])] =
   Inr [(''length'', Num 0), (''cell'', Num 1), (''cycle'', Num 1)]"
proof -
  let ?clels = "[(''length'', [example_record ''Birth length less than 3rd percentile'' 1]),
      (''cell'', [example_record ''cell cycle'' (1 / 10)]),
      (''cycle'', [example_record ''cell cycle'' (1 / 10)])]"
  have "foldl (score_each scorerWord) ([], Num 0) ?clels =
      ([(''length'', Num 0), (''cell'', Num 1), (''cycle'', Num 1)], Num 2)"
    using score_fold[of ?clels "[]" scorerWord "Num 0"]
      scorerWord_tenths[of _ "[''cell cycle'']"]
    by (simp add: raw_def scorerWord_one)
  then show ?thesis
    by (simp add: scoreClels_def scorer_lookup the_scorer_example jQuery_each_hash_def)
qed

text \<open>The same records under the text \<^verbatim>\<open>size\<close> are normalised.\<close>

lemma scoreClels_plain_key:
  "scoreClels example_widget
     [(''size'', [example_record ''Birth length less than 3rd percentile'' 1]),
      (''cell'', [example_record ''cell cycle'' (1 / 10)]),
      (''cycle'', [example_record ''cell cycle'' (1 / 10)])] =
   Inr [(''size'', Num 0), (''cell'', Num (1 / 2)), (''cycle'', Num (1 / 2))]"
  using scorerWord_tenths[of _ "[''cell cycle'']"]
  by (simp add: scoreClels_table the_scorer_example raw_def scorerWord_one)

section \<open>The Selector\<close>

lemma slice0_length:
  assumes "0 \<le> n"
  shows "length (slice0 xs n) = min (nat n) (length xs)"
  using assms by (simp add: slice0_def)

lemma clel_compare_nonneg: "0 \<le> clel_compare clelScores a b"
  by (simp add: clel_compare_def)

lemma v8_run_nonneg:
  assumes "\<And>a b. 0 \<le> cmp a b"
  shows "v8_run cmp False prev xs = length xs"
  using assms by (induction xs arbitrary: prev) (simp_all add: Let_def not_less)

text \<open>
  With a comparison function that never returns a negative number the sort of V8 leaves
  every array as it is.
\<close>

lemma v8_sort_nonneg:
  assumes "\<And>a b. 0 \<le> cmp a b"
  shows "v8_sort cmp xs = xs"
proof (cases xs)
  case Nil
  then show ?thesis by (simp add: v8_sort_def v8_binary_insertion_def)
next
  case (Cons x0 ys)
  show ?thesis
  proof (cases ys)
    case Nil
    then show ?thesis
      using \<open>xs = x0 # ys\<close> by (simp add: v8_sort_def v8_binary_insertion_def)
  next
    case (Cons x1 zs)
    have "\<not> cmp x1 x0 < 0" using assms[of x1 x0] by simp
    moreover have "v8_run cmp False x1 zs = length zs"
      by (rule v8_run_nonneg) (rule assms)
    ultimately show ?thesis
      using Cons \<open>xs = x0 # ys\<close>
      by (simp add: v8_sort_def v8_binary_insertion_def Let_def)
  qed
qed

lemma selector_v8_keeps_order:
  "sortAndCapClels v8_sort this clels clelScores =
     (if maxN this \<noteq> 0 then slice0 clels (maxN this) else clels)"
  by (simp add: sortAndCapClels_def v8_sort_nonneg clel_compare_nonneg)

text \<open>
  Claim C6. For every list of \<open>L\<close> scored elements and every cap \<open>N \<ge> 0\<close>, the Selector's
  output has \<open>min N L\<close> elements when \<open>N > 0\<close> and \<open>L\<close> elements when \<open>N = 0\<close>. The engine's sort
  is taken to return as many elements as it was given.
\<close>

theorem sortAndCapClels_length:
  assumes "0 \<le> maxN this"
    and "length (Array_sort (clel_compare clelScores) clels) = length clels"
  shows "length (sortAndCapClels Array_sort this clels clelScores) =
     (if 0 < maxN this then min (nat (maxN this)) (length clels) else length clels)"
  using assms by (simp add: sortAndCapClels_def Let_def slice0_length)

theorem sortAndCapClels_length_witness:
  "0 \<le> maxN (example_widget\<lparr>maxN := 1\<rparr>) \<and>
   length (v8_sort (clel_compare [(''cell'', Num (1 / 4)), (''cycle'', Num (3 / 4))])
     [(''cell'', []), (''cycle'', [])]) = length [(''cell'', [] :: annotation list), (''cycle'', [])] \<and>
   length (sortAndCapClels v8_sort (example_widget\<lparr>maxN := 1\<rparr>) [(''cell'', []), (''cycle'', [])]
     [(''cell'', Num (1 / 4)), (''cycle'', Num (3 / 4))]) = 1"
  using sortAndCapClels_length[of "example_widget\<lparr>maxN := 1\<rparr>" v8_sort
      "[(''cell'', Num (1 / 4)), (''cycle'', Num (3 / 4))]" "[(''cell'', []), (''cycle'', [])]"]
  by (simp add: v8_sort_nonneg clel_compare_nonneg)

text \<open>
  Claim C4 fails on the code under the sort of V8. The comparison function returns 1 or 0
  and never a negative number, so the array stays as the Normalizer left it: an element
  with the normalised score 1/4 stays in front of one with the score 3/4.
\<close>

theorem selector_v8_not_descending:
  "scoreClels example_widget
     [(''cell'', map (\<lambda>n. example_record n (1 / 10)) [''cell cycle'']),
      (''cycle'', map (\<lambda>n. example_record n (1 / 10)) [''cell cycle'', ''cycle'', ''cycling''])] =
     Inr [(''cell'', Num (1 / 4)), (''cycle'', Num (3 / 4))] \<and>
   sortAndCapClels v8_sort example_widget
     [(''cell'', map (\<lambda>n. example_record n (1 / 10)) [''cell cycle'']),
      (''cycle'', map (\<lambda>n. example_record n (1 / 10)) [''cell cycle'', ''cycle'', ''cycling''])]
     [(''cell'', Num (1 / 4)), (''cycle'', Num (3 / 4))] =
     [(''cell'', map (\<lambda>n. example_record n (1 / 10)) [''cell cycle'']),
      (''cycle'', map (\<lambda>n. example_record n (1 / 10)) [''cell cycle'', ''cycle'', ''cycling''])]"
proof -
  have "scoreClels example_widget
     [(''cell'', map (\<lambda>n. example_record n (1 / 10)) [''cell cycle'']),
      (''cycle'', map (\<lambda>n. example_record n (1 / 10)) [''cell cycle'', ''cycle'', ''cycling''])] =
     Inr [(''cell'', Num (1 / 4)), (''cycle'', Num (3 / 4))]"
    using scorerWord_tenths[of _ "[''cell cycle'']"]
      scorerWord_tenths[of _ "[''cell cycle'', ''cycle'', ''cycling'']"]
    by (simp add: scoreClels_table the_scorer_example raw_def)
  then show ?thesis
    by (simp add: selector_v8_keeps_order example_widget_def)
qed

section \<open>The container check\<close>

lemma distiller_lookup:
  "(case distiller this of
      Some f \<Rightarrow> Inr f
    | None \<Rightarrow> getCallback (defaultDistillCallbacks this) this ''distiller'') =
   Inr (the_distiller this)"
  by (simp add: the_distiller_def getCallback_def defaultDistillCallbacks_def
      split: option.splits)

lemma renderCloud_container:
  assumes "length (container this) \<noteq> 1"
  shows "renderCloud Array_sort this clels = ([], Inl ContainerError)"
  using assms by (simp add: renderCloud_def)

lemma renderStored_container:
  assumes "length (container this) \<noteq> 1"
  shows "renderStored Array_sort this data = ([], Inl ContainerError)"
  using assms by (simp add: renderStored_def distiller_lookup renderCloud_container)

lemma example_gp: "gp example_widget q = None"
  by (simp add: example_widget_def)

text \<open>
  Claim C1, as amended. For every configuration whose container selector does not resolve
  to exactly one element, rendering throws the container error before the elements are
  normalised, scored and selected and before the layout starts: nothing has happened by
  then when a stored answer is rendered. The render entry point with raw query
  parameters issues the annotation query first; the error is thrown when the answer
  arrives, and not at all when none arrives.
\<close>

theorem container_error:
  assumes "length (container this) \<noteq> 1"
  shows "renderCloud Array_sort this clels = ([], Inl ContainerError) \<and>
     renderStored Array_sort this data = ([], Inl ContainerError) \<and>
     render Array_sort this attrs =
       ([QueryIssued attrs],
        case gp this attrs of None \<Rightarrow> Inr () | Some answer \<Rightarrow> Inl ContainerError)"
  using assms
  by (simp add: render_def renderStored_container renderCloud_container split: option.splits)

theorem container_error_witness:
  "length (container (example_widget\<lparr>container := []\<rparr>)) \<noteq> 1 \<and>
   renderCloud v8_sort (example_widget\<lparr>container := []\<rparr>)
     [(''cell'', example_record ''cell cycle'' (1 / 10))] = ([], Inl ContainerError) \<and>
   renderStored v8_sort (example_widget\<lparr>container := []\<rparr>)
     [example_record ''cell cycle'' (1 / 10)] = ([], Inl ContainerError) \<and>
   render v8_sort (example_widget\<lparr>container := []\<rparr>)
       ([''swi4'', ''swi6'', ''mbp1''], ''scerevisiae'') =
     ([QueryIssued ([''swi4'', ''swi6'', ''mbp1''], ''scerevisiae'')], Inr ())"
  using container_error[of "example_widget\<lparr>container := []\<rparr>" v8_sort
      "[(''cell'', example_record ''cell cycle'' (1 / 10))]"
      "[example_record ''cell cycle'' (1 / 10)]"
      "([''swi4'', ''swi6'', ''mbp1''], ''scerevisiae'')"]
  by (simp add: example_gp)

text \<open>
  Claim C1 as the specification states it fails. With a selector that matches no element,
  \<^verbatim>\<open>render\<close> has issued the query when the error is thrown, and with a service that does
  not answer it throws no error at all.
\<close>

theorem render_query_first_counterexample:
  "length (container (example_widget\<lparr>container := []\<rparr>)) \<noteq> 1 \<and>
   render v8_sort
       (example_widget\<lparr>container := [],
          gp := \<lambda>q. Some [example_record ''cell cycle'' (1 / 10)]\<rparr>)
       ([''swi4'', ''swi6'', ''mbp1''], ''scerevisiae'') =
     ([QueryIssued ([''swi4'', ''swi6'', ''mbp1''], ''scerevisiae'')], Inl ContainerError) \<and>
   render v8_sort (example_widget\<lparr>container := []\<rparr>)
       ([''swi4'', ''swi6'', ''mbp1''], ''scerevisiae'') =
     ([QueryIssued ([''swi4'', ''swi6'', ''mbp1''], ''scerevisiae'')], Inr ())"
  by (simp add: render_def renderStored_container example_gp)

section \<open>The default colorer of term mode\<close>

lemma colorer_loop_Some:
  assumes "d \<noteq> []"
  shows "colorer_loop (Some d) vs = (Some d, \<exists>v\<in>set vs. domain v \<noteq> d)"
  using assms by (induction vs) auto

lemma colorer_loop_None:
  assumes "vs \<noteq> []" "\<forall>v\<in>set vs. domain v \<noteq> []"
  shows "colorer_loop None vs =
     (Some (domain (hd vs)), \<exists>v\<in>set vs. domain v \<noteq> domain (hd vs))"
  using assms by (cases vs) (simp_all add: colorer_loop_Some)

lemma domainColor_multiple: "obj_get (domainColor this) ''multiple'' = Own (fill10 this 4)"
  by (simp add: obj_get_def domainColor_def)

lemma domainColor_other:
  assumes "d \<noteq> ''multiple''"
    and "fill10 this 4 \<notin> {fill10 this 1, fill10 this 2, fill10 this 3}"
  shows "obj_get (domainColor this) d \<noteq> Own (fill10 this 4)"
  using assms by (auto simp: obj_get_def domainColor_def)

text \<open>
  Claim C8. For every element with a non-empty list of records, the default colorer of
  term mode returns the palette's entry under the records' common domain tag \<open>d\<close> when
  all records have that tag, and it returns the colour under \<^verbatim>\<open>multiple\<close> exactly when two
  of the records differ in their domain. A domain tag is a non-empty string other than
  the palette's own key \<^verbatim>\<open>multiple\<close>, and the colour under \<^verbatim>\<open>multiple\<close>, the fourth of the
  scale, differs from the first three.
\<close>

theorem colorerTerm_palette:
  assumes "termdata attrs \<noteq> []"
    and "\<forall>r\<in>set (termdata attrs). domain r \<noteq> [] \<and> domain r \<noteq> ''multiple''"
    and "fill10 this 4 \<notin> {fill10 this 1, fill10 this 2, fill10 this 3}"
  shows "((\<forall>r\<in>set (termdata attrs). domain r = d) \<longrightarrow>
            colorerTerm this attrs = obj_get (domainColor this) d) \<and>
         (colorerTerm this attrs = obj_get (domainColor this) ''multiple'') =
           (\<exists>r\<in>set (termdata attrs). \<exists>r'\<in>set (termdata attrs). domain r \<noteq> domain r')"
proof -
  let ?ts = "termdata attrs"
  let ?d0 = "domain (hd ?ts)"
  have hd_in: "hd ?ts \<in> set ?ts" using assms(1) by simp
  have loop: "colorer_loop None ?ts = (Some ?d0, \<exists>v\<in>set ?ts. domain v \<noteq> ?d0)"
    using assms(1,2) by (intro colorer_loop_None) auto
  have span: "(\<exists>v\<in>set ?ts. domain v \<noteq> ?d0) =
      (\<exists>r\<in>set ?ts. \<exists>r'\<in>set ?ts. domain r \<noteq> domain r')"
    using hd_in by metis
  have res: "colorerTerm this attrs =
      (if \<exists>v\<in>set ?ts. domain v \<noteq> ?d0 then obj_get (domainColor this) ''multiple''
       else obj_get (domainColor this) ?d0)"
    using loop by (simp add: colorerTerm_def)
  have common: "(\<forall>r\<in>set ?ts. domain r = d) \<longrightarrow>
      colorerTerm this attrs = obj_get (domainColor this) d"
  proof
    assume all: "\<forall>r\<in>set ?ts. domain r = d"
    then have "?d0 = d" using hd_in by blast
    then show "colorerTerm this attrs = obj_get (domainColor this) d"
      using res all by simp
  qed
  have "?d0 \<noteq> ''multiple''" using assms(2) hd_in by blast
  then have "obj_get (domainColor this) ?d0 \<noteq> obj_get (domainColor this) ''multiple''"
    using assms(3) by (simp add: domainColor_multiple domainColor_other)
  then have "(colorerTerm this attrs = obj_get (domainColor this) ''multiple'') =
      (\<exists>v\<in>set ?ts. domain v \<noteq> ?d0)"
    using res by simp
  then show ?thesis using common span by simp
qed

lemma example_fill10:
  "fill10 example_widget (Suc 0) = ''#1f77b4''" "fill10 example_widget 2 = ''#ff7f0e''"
  "fill10 example_widget 3 = ''#2ca02c''" "fill10 example_widget 4 = ''#d62728''"
  by (simp_all add: example_widget_def category10_def)

theorem colorerTerm_palette_witness:
  "colorerTerm example_widget
      \<lparr>str = ''cell cycle'', termdata = [example_record ''cell cycle'' (1 / 10)],
        score = Num 1, scaling = Num 1\<rparr> = Own ''#1f77b4'' \<and>
   colorerTerm example_widget
      \<lparr>str = ''cyclin'', termdata = [example_record ''cell cycle'' (1 / 10),
          (example_record ''cyclin binding'' (1 / 10))\<lparr>domain := ''MF''\<rparr>],
        score = Num 1, scaling = Num 1\<rparr> = Own ''#d62728''"
  using colorerTerm_palette[of
      "\<lparr>str = ''cell cycle'', termdata = [example_record ''cell cycle'' (1 / 10)],
        score = Num 1, scaling = Num 1\<rparr>" example_widget "''BP''"]
    colorerTerm_palette[of
      "\<lparr>str = ''cyclin'', termdata = [example_record ''cell cycle'' (1 / 10),
          (example_record ''cyclin binding'' (1 / 10))\<lparr>domain := ''MF''\<rparr>],
        score = Num 1, scaling = Num 1\<rparr>" example_widget "''BP''"]
  by (auto simp add: example_record_def domainColor_def obj_get_def example_fill10)

section \<open>The default distiller of word mode\<close>

subsection \<open>Case and trailing punctuation\<close>






subsection \<open>The stop word hash\<close>





subsection \<open>The distilled words\<close>





section \<open>The Normalizer\<close>

lemma first_seen_snoc:
  "first_seen (xs @ [x]) = (if x \<in> set xs then first_seen xs else first_seen xs @ [x])"
  by (simp add: first_seen_def)

lemma first_seen_set: "set (first_seen xs) = set xs"
  by (simp add: first_seen_def)

lemma first_seen_distinct: "distinct (first_seen xs)"
  by (simp add: first_seen_def)

lemma first_seen_length: "length (first_seen xs) \<le> length xs"
  by (metis first_seen_def length_rev length_remdups_leq)

lemma records_of_snoc:
  "records_of t (pre @ [v]) =
     (if fst v = t then records_of t pre @ [snd v] else records_of t pre)"
  by (simp add: records_of_def)

lemma records_of_unseen:
  assumes "t \<notin> fst ` set pre"
  shows "records_of t pre = []"
  using assms by (induction pre) (auto simp: records_of_def)

lemma records_of_length: "length (records_of t clels) = count_list (map fst clels) t"
  by (induction clels) (auto simp: records_of_def)

lemma hash_of_keys: "map fst (hash_of pre) = first_seen (map fst pre)"
  by (simp add: hash_of_def comp_def)

lemma hash_of_key_set: "fst ` set (hash_of pre) = fst ` set pre"
  using hash_of_keys[of pre] first_seen_set[of "map fst pre"] by (metis set_map)

lemma hash_of_get_seen:
  assumes "s \<in> fst ` set pre"
  shows "obj_get (hash_of pre) s = Own (s, records_of s pre)"
proof -
  have "distinct (map fst (hash_of pre))" by (simp add: hash_of_keys first_seen_distinct)
  moreover have "(s, (s, records_of s pre)) \<in> set (hash_of pre)"
    using assms by (auto simp: hash_of_def first_seen_set)
  ultimately show ?thesis by (rule obj_get_own)
qed

lemma hash_of_get_unseen:
  assumes "s \<notin> fst ` set pre" "s \<notin> set Object_prototype"
  shows "obj_get (hash_of pre) s = Undefined"
proof -
  have "s \<notin> fst ` set (hash_of pre)" using assms(1) by (simp add: hash_of_key_set)
  then have "map_of (hash_of pre) s = None" by (simp add: map_of_eq_None_iff)
  then show ?thesis using assms(2) by (simp add: obj_get_def)
qed

lemma not_proto: "s \<notin> set Object_prototype \<Longrightarrow> s \<noteq> ''__proto__''"
  by (auto simp: Object_prototype_def)

lemma hash_of_push:
  assumes "s \<in> fst ` set pre" "s \<notin> set Object_prototype"
  shows "obj_set (hash_of pre) s (s, records_of s pre @ [t]) = hash_of (pre @ [(s, t)])"
proof -
  have in_keys: "s \<in> fst ` set (hash_of pre)" using assms(1) by (simp add: hash_of_key_set)
  have "obj_set (hash_of pre) s (s, records_of s pre @ [t]) =
      map (\<lambda>e. if fst e = s then (s, (s, records_of s pre @ [t])) else e) (hash_of pre)"
    using in_keys assms(2) by (intro obj_set_own) (simp_all add: not_proto)
  also have "\<dots> = hash_of (pre @ [(s, t)])"
    using assms(1) by (auto simp: hash_of_def first_seen_snoc records_of_snoc)
  finally show ?thesis .
qed

lemma hash_of_create:
  assumes "s \<notin> fst ` set pre" "s \<notin> set Object_prototype"
  shows "obj_set (hash_of pre) s (s, [t]) = hash_of (pre @ [(s, t)])"
proof -
  have not_key: "s \<notin> fst ` set (hash_of pre)" using assms(1) by (simp add: hash_of_key_set)
  have "obj_set (hash_of pre) s (s, [t]) = hash_of pre @ [(s, (s, [t]))]"
    using not_key assms(2) by (simp add: obj_set_def not_proto)
  also have "\<dots> = hash_of (pre @ [(s, t)])"
    using assms(1)
    by (auto simp: hash_of_def first_seen_snoc records_of_snoc records_of_unseen first_seen_set)
  finally show ?thesis .
qed

lemma collapse_each_hash:
  assumes "\<forall>p\<in>set vs. fst p \<notin> set Object_prototype"
  shows "collapse_each (hash_of pre) vs = Inr (hash_of (pre @ vs))"
  using assms
proof (induction vs arbitrary: pre)
  case Nil
  then show ?case by simp
next
  case (Cons v vs)
  obtain s t where v: "v = (s, t)" by (cases v)
  have ok: "s \<notin> set Object_prototype" using Cons.prems v by simp
  have rest: "collapse_each (hash_of (pre @ [v])) vs = Inr (hash_of ((pre @ [v]) @ vs))"
    using Cons.prems by (intro Cons.IH) simp
  show ?case
  proof (cases "s \<in> fst ` set pre")
    case True
    then show ?thesis
      using rest v ok by (simp add: hash_of_get_seen hash_of_push)
  next
    case False
    then show ?thesis
      using rest v ok by (simp add: hash_of_get_unseen hash_of_create)
  qed
qed

lemma insort_key_map:
  "insort_key k (g x) (map g ys) = map g (insort_key (\<lambda>y. k (g y)) x ys)"
  by (induction ys) simp_all

lemma sort_key_map: "sort_key k (map g xs) = map g (sort_key (\<lambda>y. k (g y)) xs)"
  by (induction xs) (simp_all add: insort_key_map)

lemma own_entries_map:
  "own_entries (map (\<lambda>t. (t, F t)) ks) = map (\<lambda>t. (t, F t)) (key_order ks)"
  by (simp add: own_entries_def key_order_def filter_map comp_def sort_key_map)

lemma key_order_mset: "mset (key_order ks) = mset ks"
  by (simp add: key_order_def multiset_partition[symmetric])

lemma key_order_plain:
  assumes "\<forall>k\<in>set ks. \<not> is_index k"
  shows "key_order ks = ks"
  using assms by (simp add: key_order_def filter_empty_conv filter_id_conv)

text \<open>The output of the Normalizer, when no text is a property of \<^verbatim>\<open>Object.prototype\<close>.\<close>

lemma collapseClels_table:
  assumes "\<forall>p\<in>set clels. fst p \<notin> set Object_prototype"
  shows "collapseClels clels =
      Inr (map (\<lambda>t. (t, records_of t clels)) (key_order (first_seen (map fst clels))))"
proof -
  have "collapse_each (hash_of []) clels = Inr (hash_of ([] @ clels))"
    using assms by (rule collapse_each_hash)
  then have "collapse_each [] clels = Inr (hash_of clels)"
    by (simp add: hash_of_def first_seen_def)
  then show ?thesis
    by (simp add: collapseClels_def values_underscore_def hash_of_def own_entries_map comp_def)
qed

text \<open>A text that \<^verbatim>\<open>Object.prototype\<close> has a property for makes the Normalizer throw.\<close>

lemma collapseClels_inherited:
  assumes "s \<in> set Object_prototype"
  shows "collapseClels ((s, t) # clels) = Inl TypeError"
  using assms by (simp add: collapseClels_def obj_get_def)

lemma example_key_order:
  "key_order [''cell'', ''cycle''] = [''cell'', ''cycle'']"
  "key_order [''cell'', ''10''] = [''10'', ''cell'']"
  by (simp_all add: key_order_def is_index_def is_digit_def index_val_def)

lemma example_first_seen:
  "first_seen [''cell'', ''cycle'', ''cell''] = [''cell'', ''cycle'']"
  "first_seen [''cell'', ''10''] = [''cell'', ''10'']"
  by (simp_all add: first_seen_def)

lemma example_plain_keys:
  "''cell'' \<notin> set Object_prototype" "''cycle'' \<notin> set Object_prototype"
  "''10'' \<notin> set Object_prototype"
  by (simp_all add: Object_prototype_def)

text \<open>
  Claim C5, as amended. For every sequence of pairs of a text and a record in which no
  text is the name of a property of \<^verbatim>\<open>Object.prototype\<close>, the Normalizer outputs exactly
  one element per distinct text, so at most as many elements as there are pairs. The
  elements whose text is an array index come first, in ascending numeric order, and the
  other elements follow in the order in which their texts were first seen; when no text
  is an array index, this is the first-seen order of all texts. Each element's list
  holds, in the order of the pairs, exactly the records paired with its text, as many as
  the text occurs.
\<close>

theorem collapseClels_elements:
  assumes "\<forall>p\<in>set clels. fst p \<notin> set Object_prototype"
  shows "collapseClels clels =
       Inr (map (\<lambda>t. (t, records_of t clels)) (key_order (first_seen (map fst clels)))) \<and>
     distinct (key_order (first_seen (map fst clels))) \<and>
     set (key_order (first_seen (map fst clels))) = fst ` set clels \<and>
     length (key_order (first_seen (map fst clels))) \<le> length clels \<and>
     (\<forall>t. length (records_of t clels) = count_list (map fst clels) t) \<and>
     ((\<forall>p\<in>set clels. \<not> is_index (fst p)) \<longrightarrow>
        key_order (first_seen (map fst clels)) = first_seen (map fst clels))"
proof -
  let ?ks = "first_seen (map fst clels)"
  have m: "mset (key_order ?ks) = mset ?ks" by (rule key_order_mset)
  have "distinct (key_order ?ks)"
    using m first_seen_distinct[of "map fst clels"] by (metis mset_eq_imp_distinct_iff)
  moreover have "set (key_order ?ks) = fst ` set clels"
    using m first_seen_set[of "map fst clels"] by (metis mset_eq_setD set_map)
  moreover have "length (key_order ?ks) \<le> length clels"
    using m first_seen_length[of "map fst clels"] by (metis mset_eq_length length_map)
  moreover have "(\<forall>p\<in>set clels. \<not> is_index (fst p)) \<longrightarrow> key_order ?ks = ?ks"
    by (auto intro!: key_order_plain simp: first_seen_set)
  ultimately show ?thesis
    using collapseClels_table[OF assms] by (simp add: records_of_length)
qed

theorem collapseClels_elements_witness:
  "collapseClels [(''cell'', example_record ''cell cycle'' (1 / 10)),
       (''cycle'', example_record ''cell cycle'' (1 / 10)),
       (''cell'', example_record ''cell death'' (1 / 100))] =
     Inr [(''cell'', [example_record ''cell cycle'' (1 / 10), example_record ''cell death'' (1 / 100)]),
          (''cycle'', [example_record ''cell cycle'' (1 / 10)])]"
  using collapseClels_elements[of "[(''cell'', example_record ''cell cycle'' (1 / 10)),
       (''cycle'', example_record ''cell cycle'' (1 / 10)),
       (''cell'', example_record ''cell death'' (1 / 100))]"]
  by (simp add: example_plain_keys example_first_seen example_key_order records_of_def)

text \<open>
  Claim C5 as the specification states it fails on the order: the text \<^verbatim>\<open>10\<close>, a word of
  the term name \<^verbatim>\<open>Toll Like Receptor 10 (TLR10) Cascade\<close>, is seen after \<^verbatim>\<open>cell\<close> and
  comes before it in the output.
\<close>

theorem collapseClels_index_first_counterexample:
  "collapseClels [(''cell'', example_record ''cell cycle'' (1 / 10)),
       (''10'', example_record ''Toll Like Receptor 10 (TLR10) Cascade'' (1 / 10))] =
     Inr [(''10'', [example_record ''Toll Like Receptor 10 (TLR10) Cascade'' (1 / 10)]),
          (''cell'', [example_record ''cell cycle'' (1 / 10)])] \<and>
   first_seen (map fst [(''cell'', example_record ''cell cycle'' (1 / 10)),
       (''10'', example_record ''Toll Like Receptor 10 (TLR10) Cascade'' (1 / 10))]) =
     [''cell'', ''10'']"
  by (simp add: collapseClels_table example_plain_keys example_first_seen example_key_order
      records_of_def)

lemma example_distilled_number:
  "distillerWord example_widget
     (example_record ''Toll Like Receptor 10 (TLR10) Cascade'' (1 / 10)) =
   [''toll'', ''like'', ''receptor'', ''10'', ''(TLR10)'', ''cascade'']"
  by code_simp

section \<open>A complete render pass\<close>

text \<open>
  The example widget with a service that answers with one record of the term
  \<^verbatim>\<open>cell cycle\<close>: the query is issued, the record is distilled into two words, both get
  the score 1/2 and the largest size, and the layout starts with them.
\<close>

lemma example_distilled_cell:
  "distillerWord example_widget (example_record ''cell cycle'' (1 / 10)) = [''cell'', ''cycle'']"
  by code_simp

lemma log2_301: "72 < log 2 301 * 12"
proof -
  have "6 < log 2 301" by (simp add: less_log_iff)
  then show ?thesis by simp
qed

lemma example_sizer:
  "sizerWord \<lparr>str = w, termdata = td, score = Num (1 / 2), scaling = Num 1\<rparr> = Num 72"
  using log2_301 by (simp add: sizerWord_Num[where s = "1 / 2" and c = 1] cap_Num)

lemma example_scaling:
  "js_div (js_div (js_add (width example_widget) (height example_widget)) (Num 2)) (Num 600) = Num 1"
  by (simp add: example_widget_def)

lemma example_collapse:
  "collapseClels [(''cell'', example_record ''cell cycle'' (1 / 10)),
      (''cycle'', example_record ''cell cycle'' (1 / 10))] =
   Inr [(''cell'', [example_record ''cell cycle'' (1 / 10)]),
        (''cycle'', [example_record ''cell cycle'' (1 / 10)])]"
  by (simp add: collapseClels_table example_plain_keys first_seen_def example_key_order
      records_of_def)

lemma example_scores:
  "scoreClels (example_widget\<lparr>gp := g\<rparr>) [(''cell'', [example_record ''cell cycle'' (1 / 10)]),
        (''cycle'', [example_record ''cell cycle'' (1 / 10)])] =
   Inr [(''cell'', Num (1 / 2)), (''cycle'', Num (1 / 2))]"
proof -
  have "the_scorer (example_widget\<lparr>gp := g\<rparr>) = scorerWord"
    by (simp add: the_scorer_def example_widget_def)
  then show ?thesis
    using scorerWord_tenths[of _ "[''cell cycle'']"]
    by (simp add: scoreClels_table raw_def)
qed

lemma example_words:
  "renderTransformStr (example_widget\<lparr>gp := g\<rparr>)
     [(''cell'', [example_record ''cell cycle'' (1 / 10)]),
      (''cycle'', [example_record ''cell cycle'' (1 / 10)])]
     [(''cell'', Num (1 / 2)), (''cycle'', Num (1 / 2))] (Num 1) =
   Inr [\<lparr>word_text = ''cell'', word_size = Num 72, word_color = Own ''#1f77b4'',
          word_termdata = [example_record ''cell cycle'' (1 / 10)]\<rparr>,
        \<lparr>word_text = ''cycle'', word_size = Num 72, word_color = Own ''#aec7e8'',
          word_termdata = [example_record ''cell cycle'' (1 / 10)]\<rparr>]"
  by (simp add: renderTransformStr_def getCallback_def defaultSizeCallbacks_def
      defaultColorCallbacks_def transform_each_def obj_get_def example_sizer colorerWord_def
      example_widget_def category20_def Let_def)

lemma example_render:
  "render v8_sort (example_widget\<lparr>gp := (\<lambda>q. Some [example_record ''cell cycle'' (1 / 10)])\<rparr>)
     ([''swi4'', ''swi6'', ''mbp1''], ''scerevisiae'') =
   ([QueryIssued ([''swi4'', ''swi6'', ''mbp1''], ''scerevisiae''),
     LayoutStarted
       [\<lparr>word_text = ''cell'', word_size = Num 72, word_color = Own ''#1f77b4'',
          word_termdata = [example_record ''cell cycle'' (1 / 10)]\<rparr>,
        \<lparr>word_text = ''cycle'', word_size = Num 72, word_color = Own ''#aec7e8'',
          word_termdata = [example_record ''cell cycle'' (1 / 10)]\<rparr>]],
    Inr ())"
proof -
  let ?w = "example_widget\<lparr>gp := (\<lambda>q. Some [example_record ''cell cycle'' (1 / 10)])\<rparr>"
  have d: "the_distiller ?w = (\<lambda>r. Some (distillerWord ?w r))"
    by (simp add: the_distiller_def example_widget_def)
  have dw: "distillerWord ?w = distillerWord example_widget"
    by (simp add: distillerWord_def fun_eq_iff example_widget_def)
  have c: "length (container example_widget) = Suc 0" "\<not> warnings example_widget"
    "maxN example_widget = 0" "width example_widget = Num 600"
    "height example_widget = Num 600"
    by (simp_all add: example_widget_def)
  have stored: "renderStored v8_sort ?w [example_record ''cell cycle'' (1 / 10)] =
      renderCloud v8_sort ?w [(''cell'', example_record ''cell cycle'' (1 / 10)),
        (''cycle'', example_record ''cell cycle'' (1 / 10))]"
    unfolding renderStored_def distiller_lookup d
    by (simp add: dw example_distilled_cell)
  have cloud: "renderCloud v8_sort ?w [(''cell'', example_record ''cell cycle'' (1 / 10)),
        (''cycle'', example_record ''cell cycle'' (1 / 10))] =
      ([LayoutStarted
       [\<lparr>word_text = ''cell'', word_size = Num 72, word_color = Own ''#1f77b4'',
          word_termdata = [example_record ''cell cycle'' (1 / 10)]\<rparr>,
        \<lparr>word_text = ''cycle'', word_size = Num 72, word_color = Own ''#aec7e8'',
          word_termdata = [example_record ''cell cycle'' (1 / 10)]\<rparr>]], Inr ())"
    unfolding renderCloud_def example_collapse
    by (simp add: c example_scores selector_v8_keeps_order example_words)
  show ?thesis
    unfolding render_def by (simp add: stored cloud)
qed

end
